theory Spec2Isabelle
  imports Complex_Main
begin

section \<open>BIC photonic-crystal array simulator (BIC\_Q\_Factor3.py)\<close>

text \<open>
  The simulator works on numpy arrays of double-precision numbers. The embedding reads
  every float as a real number and every complex128 as a complex number, so the
  arithmetic below is the exact arithmetic that the floating-point operations round.
  A two-dimensional array is the list of its rows. A quotient of numpy values by zero
  raises nothing (it is infinite or NaN, with a warning) while the quotient here is 0;
  the two readings part only where a divisor is zero, that is for a pitch, a design
  wavelength or a reference frequency of zero, which \<open>__init__\<close> never sets.
\<close>

subsection \<open>Data model\<close>

text \<open>The dictionary \<open>self.params\<close>, with its five fixed keys.\<close>

record parameter_set =
  epsilon :: complex
  a :: real
  radius :: real
  lambda_0 :: real
  N :: nat

text \<open>The dictionary \<open>self.theoretical\<close>.\<close>

record reference_solution =
  frequency :: real
  Q :: real
  linewidth :: real

text \<open>The object \<open>self\<close>: the three attributes set by \<open>__init__\<close>.\<close>

record simulator =
  params :: parameter_set
  omega_0 :: real
  theoretical :: reference_solution

text \<open>\<open>scipy.constants.c\<close>, the speed of light in m/s.\<close>

definition c :: real where
  "c = 299792458"

definition certified_params :: parameter_set where
  "certified_params =
     \<lparr>epsilon = Complex 12.1 (6.0 / 10 ^ 7), a = 600 / 10 ^ 9, radius = 202 / 10 ^ 9,
      lambda_0 = 1550 / 10 ^ 9, N = 20\<rparr>"

definition reference_values :: reference_solution where
  "reference_values = \<lparr>frequency = 193.4145, Q = 3.2 * 10 ^ 5, linewidth = 0.60\<rparr>"

text \<open>
  \<open>__init__\<close>: the object it leaves behind. \<open>omega_0\<close> is computed once, from the design
  wavelength of the dictionary just built, and stored.
\<close>

definition BICSimulator_init :: simulator where
  "BICSimulator_init =
     \<lparr>params = certified_params,
      omega_0 = 2 * pi * c / lambda_0 certified_params,
      theoretical = reference_values\<rparr>"

subsection \<open>Array operations of numpy used by the simulator\<close>

text \<open>\<open>np.zeros((n, m), dtype=np.complex128)\<close>\<close>

definition zeros :: "nat \<Rightarrow> nat \<Rightarrow> complex list list" where
  "zeros n m = replicate n (replicate m 0)"

text \<open>
  \<open>np.fill_diagonal(M, v)\<close>: entry \<open>(i, i)\<close> of every row that has a column \<open>i\<close> becomes
  \<open>v\<close>; a row without that column is left as it is (list update out of range changes
  nothing).
\<close>

definition fill_diagonal :: "'x list list \<Rightarrow> 'x \<Rightarrow> 'x list list" where
  "fill_diagonal M v = map (\<lambda>i. (M ! i)[i := v]) [0..<length M]"

text \<open>\<open>np.arange(n)\<close>: the integers \<open>0, ..., n - 1\<close>.\<close>

definition arange :: "nat \<Rightarrow> int list" where
  "arange n = map int [0..<n]"

text \<open>\<open>xs[:, None] - ys\<close>: the broadcast difference, row \<open>i\<close> holds \<open>xs[i] - ys[j]\<close>.\<close>

definition outer_sub :: "int list \<Rightarrow> int list \<Rightarrow> int list list" where
  "outer_sub xs ys = map (\<lambda>x. map (\<lambda>y. x - y) ys) xs"

text \<open>A unary operation applied to every entry, and a binary one to two arrays of one shape.\<close>

definition elementwise :: "('x \<Rightarrow> 'y) \<Rightarrow> 'x list list \<Rightarrow> 'y list list" where
  "elementwise f M = map (map f) M"

definition elementwise2 :: "('x \<Rightarrow> 'y \<Rightarrow> 'z) \<Rightarrow> 'x list list \<Rightarrow> 'y list list \<Rightarrow> 'z list list" where
  "elementwise2 f A B = map2 (map2 f) A B"

subsection \<open>The Hamiltonian builder\<close>

text \<open>
  Lines 31 and 32: \<open>r = a * np.abs(np.arange(N)[:,None] - np.arange(N))\<close>, then
  \<open>np.fill_diagonal(r, a * 0.114)\<close>.
\<close>

definition separation :: "simulator \<Rightarrow> real list list" where
  "separation s =
     (let p = params s;
          r = elementwise (\<lambda>d. a p * of_int d)
                (elementwise abs (outer_sub (arange (N p)) (arange (N p))))
      in fill_diagonal r (a p * 0.114))"

text \<open>Line 34, the divisor \<open>r**3 + (0.114*a)**3\<close> and the quotient \<open>coupling\<close>.\<close>

definition coupling_denominator :: "simulator \<Rightarrow> real list list" where
  "coupling_denominator s =
     elementwise (\<lambda>r. r ^ 3 + (0.114 * a (params s)) ^ 3) (separation s)"

definition coupling :: "simulator \<Rightarrow> real list list" where
  "coupling s = elementwise (\<lambda>d. radius (params s) ^ 3 / d) (coupling_denominator s)"

text \<open>Line 35: \<open>phase = np.exp(-1j*2*np.pi*r/lambda_0)\<close>.\<close>

definition phase :: "simulator \<Rightarrow> complex list list" where
  "phase s =
     elementwise
       (\<lambda>r. exp (- \<i> * 2 * of_real pi * of_real r / of_real (lambda_0 (params s))))
       (separation s)"

text \<open>
  \<open>_build_hamiltonian(self, omega)\<close>: the zero matrix, its diagonal filled with \<open>diag\<close>,
  then \<open>H += 0.62 * coupling * phase\<close> on the whole array.
\<close>

definition build_hamiltonian :: "simulator \<Rightarrow> real \<Rightarrow> complex list list" where
  "build_hamiltonian s omega =
     (let n = N (params s);
          H = zeros n n;
          diag = of_real ((omega / omega_0 s) ^ 2) * epsilon (params s) + 0.66;
          H = fill_diagonal H diag
      in elementwise2 (+) H
           (elementwise2 (\<lambda>x y. of_real x * y)
              (elementwise (\<lambda>x. 0.62 * x) (coupling s)) (phase s)))"

subsection \<open>The resonance scanner\<close>

datatype error = LinAlgError | ValueError

text \<open>
  \<open>np.linalg.eigvals\<close> is a library routine outside the repository. The scanner takes
  it as a parameter: a function from the matrix to its array of eigenvalues, or to the
  \<open>LinAlgError\<close> that the routine raises and that \<open>run_simulation\<close> does not catch.
\<close>

type_synonym solver = "complex list list \<Rightarrow> error + complex list"

text \<open>
  On a 1-by-1 array the routine returns the single entry, which is the eigenvalue. This
  closed form covers no other shape: every other argument is answered with the error,
  so it is used with one unit cell only.
\<close>

definition eigvals_1x1 :: solver where
  "eigvals_1x1 H = (case H of [[x]] \<Rightarrow> Inr [x] | _ \<Rightarrow> Inl LinAlgError)"

text \<open>
  \<open>np.linspace(start, stop, num)\<close> with its default \<open>endpoint=True\<close>: the step is
  \<open>(stop - start) / (num - 1)\<close>, sample \<open>k\<close> is \<open>k * step + start\<close>, and the last sample is
  then overwritten with \<open>stop\<close>.
\<close>

definition linspace :: "real \<Rightarrow> real \<Rightarrow> nat \<Rightarrow> real list" where
  "linspace start stop num =
     (let step = (stop - start) / real (num - 1);
          y = map (\<lambda>k. real k * step + start) [0..<num]
      in if 1 < num then y[num - 1 := stop] else y)"

definition num_samples :: nat where
  "num_samples = 50000"

text \<open>Line 42.\<close>

definition omega_range :: "simulator \<Rightarrow> real list" where
  "omega_range s = linspace (0.92 * omega_0 s) (1.08 * omega_0 s) num_samples"

text \<open>
  Lines 49 to 52, each an array as long as \<open>evals\<close>. The local \<open>Q\<close> of the source is
  \<open>Q_factor\<close> here. Where \<open>Gamma_n\<close> is zero numpy's quotient is infinite or NaN (with a
  warning, no exception) and the quotient below is 0; line 54 discards that entry in
  both, since its \<open>Gamma_n\<close> is not above \<open>1e-5\<close>.
\<close>

definition omega_n :: "simulator \<Rightarrow> complex list \<Rightarrow> real list" where
  "omega_n s evals = map (\<lambda>z. Re z * omega_0 s) evals"

definition Gamma_n :: "simulator \<Rightarrow> complex list \<Rightarrow> real list" where
  "Gamma_n s evals = map (\<lambda>z. - 2 * Im z * omega_0 s) evals"

definition freq_THz :: "simulator \<Rightarrow> complex list \<Rightarrow> real list" where
  "freq_THz s evals = map (\<lambda>w. w / (2 * pi * 10 ^ 12)) (omega_n s evals)"

definition Q_factor :: "simulator \<Rightarrow> complex list \<Rightarrow> real list" where
  "Q_factor s evals = map2 (/) (omega_n s evals) (Gamma_n s evals)"

text \<open>Line 54: the conjunction of four boolean arrays.\<close>

definition valid :: "simulator \<Rightarrow> complex list \<Rightarrow> bool list" where
  "valid s evals =
     map2 (\<and>)
       (map2 (\<and>)
          (map2 (\<and>)
             (map (\<lambda>g. 1 / 10 ^ 5 < g) (Gamma_n s evals))
             (map (\<lambda>f. 193.0 < f) (freq_THz s evals)))
          (map (\<lambda>f. f < 194.0) (freq_THz s evals)))
       (map (\<lambda>q. 1.5 * 10 ^ 5 < q) (Q_factor s evals))"

text \<open>Indexing with a boolean array, \<open>xs[flags]\<close>: the entries whose flag is set, in order.\<close>

definition masked :: "'x list \<Rightarrow> bool list \<Rightarrow> 'x list" where
  "masked xs flags = map fst (filter snd (zip xs flags))"

text \<open>Line 55: the pairs that one sample adds to \<open>results\<close>.\<close>

definition sample_records :: "simulator \<Rightarrow> complex list \<Rightarrow> (real \<times> real) list" where
  "sample_records s evals =
     zip (masked (freq_THz s evals) (valid s evals)) (masked (Q_factor s evals) (valid s evals))"

text \<open>
  The loop of lines 45 to 55 over the remaining samples, with \<open>results\<close> as it stands.
  An error of the solver ends the loop.
\<close>

fun sweep :: "solver \<Rightarrow> simulator \<Rightarrow> real list \<Rightarrow> (real \<times> real) list
    \<Rightarrow> error + (real \<times> real) list" where
  "sweep eigvals s [] results = Inr results"
| "sweep eigvals s (omega # rest) results =
     (case eigvals (build_hamiltonian s omega) of
        Inl e \<Rightarrow> Inl e
      | Inr evals \<Rightarrow> sweep eigvals s rest (results @ sample_records s evals))"

text \<open>\<open>run_simulation\<close>; line 57 returns \<open>None\<close> for an empty list of results.\<close>

definition run_simulation :: "solver \<Rightarrow> simulator \<Rightarrow> error + (real \<times> real) list option" where
  "run_simulation eigvals s =
     (case sweep eigvals s (omega_range s) [] of
        Inl e \<Rightarrow> Inl e
      | Inr results \<Rightarrow> Inr (if results \<noteq> [] then Some results else None))"

subsection \<open>The reporter\<close>

text \<open>
  What \<open>visualize\<close> prints: the block of numerical results (frequency, quality factor,
  linewidth) or the block of the theoretical reference. The figure is not modelled.
\<close>

datatype report =
  NumericalResults real real real
| TheoreticalReference real real real

text \<open>
  \<open>np.argmax\<close>: the index of the first occurrence of the maximum. The scan keeps the best
  index and value so far and replaces them only by a strictly larger value.
\<close>

fun argmax_scan :: "real list \<Rightarrow> nat \<Rightarrow> nat \<Rightarrow> real \<Rightarrow> nat" where
  "argmax_scan [] i best v = best"
| "argmax_scan (x # xs) i best v =
     (if v < x then argmax_scan xs (Suc i) i x else argmax_scan xs (Suc i) best v)"

definition argmax :: "real list \<Rightarrow> error + nat" where
  "argmax xs =
     (case xs of [] \<Rightarrow> Inl ValueError | x # rest \<Rightarrow> Inr (argmax_scan rest 1 0 x))"

text \<open>
  \<open>visualize(self, results)\<close>. The array \<open>results\<close> is the list of its rows
  \<open>(frequency, Q)\<close>, and \<open>results[:,1]\<close> the list of their second components; on an
  array without rows \<open>np.argmax\<close> raises \<open>ValueError\<close>.
\<close>

definition visualize :: "simulator \<Rightarrow> (real \<times> real) list option \<Rightarrow> error + report" where
  "visualize s results =
     (case results of
        Some rs \<Rightarrow>
          (case argmax (map snd rs) of
             Inl e \<Rightarrow> Inl e
           | Inr best_idx \<Rightarrow>
               Inr (NumericalResults (fst (rs ! best_idx)) (snd (rs ! best_idx))
                     (fst (rs ! best_idx) / snd (rs ! best_idx) * 10 ^ 3)))
      | None \<Rightarrow>
          Inr (TheoreticalReference (frequency (theoretical s)) (Q (theoretical s))
                (linewidth (theoretical s))))"

subsection \<open>The layout exporter\<close>

text \<open>
  The gdspy objects that \<open>export_gds\<close> builds, each with the arguments it is built from:
  \<open>Round centre radius number_of_points layer\<close>,
  \<open>CellArray ref_cell columns rows spacing origin\<close> and
  \<open>Rectangle corner1 corner2 layer\<close>. A cell is its name and the elements added to it in
  order; the library is the list of its cells in the order of creation.
\<close>

datatype element =
  Round "real \<times> real" real nat nat
| CellArray string nat nat "real \<times> real" "real \<times> real"
| Rectangle "real \<times> real" "real \<times> real" nat

type_synonym cell = "string \<times> element list"

definition add :: "cell \<Rightarrow> element \<Rightarrow> cell" where
  "add cl e = (fst cl, snd cl @ [e])"

text \<open>The body of the two nested loops (lines 112 to 121) for one \<open>x\<close> and one \<open>y\<close>.\<close>

definition add_marks :: "real \<Rightarrow> real \<Rightarrow> cell \<Rightarrow> real \<Rightarrow> cell" where
  "add_marks align_size x top_cell y =
     add
       (add top_cell
          (Rectangle (x - align_size / 2, y - align_size / 20)
             (x + align_size / 2, y + align_size / 20) 2))
       (Rectangle (y - align_size / 20, x - align_size / 2)
          (y + align_size / 20, x + align_size / 2) 2)"

text \<open>\<open>export_gds\<close>: the library handed to \<open>write_gds\<close>.\<close>

definition export_gds :: "simulator \<Rightarrow> cell list" where
  "export_gds s =
     (let p = params s;
          top_cell = (''TOP'', []);
          disk_cell = (''DISK'', []);
          disk_cell = add disk_cell (Round (0, 0) (radius p) 64 1);
          top_cell = add top_cell (CellArray (fst disk_cell) (N p) 1 (a p, 0) (0, 0));
          align_size = a p * 0.5;
          top_cell =
            foldl (\<lambda>tc x. foldl (add_marks align_size x) tc [- align_size, align_size])
              top_cell [- a p, real (N p) * a p]
      in [top_cell, disk_cell])"


subsection \<open>The workflow\<close>

text \<open>
  \<open>run\<close>: the scan, the report and the export, in this order. The console lines about the
  parameters and the diagnostics of lines 142 to 147 are not modelled.
\<close>

definition run :: "solver \<Rightarrow> simulator \<Rightarrow> error + report \<times> cell list" where
  "run eigvals s =
     (case run_simulation eigvals s of
        Inl e \<Rightarrow> Inl e
      | Inr results \<Rightarrow>
          (case visualize s results of
             Inl e \<Rightarrow> Inl e
           | Inr rep \<Rightarrow> Inr (rep, export_gds s)))"

text \<open>
  The simulator after \<open>__init__\<close> and the assignment \<open>params['N'] = 1\<close>: the certified
  parameters with one unit cell instead of twenty.
\<close>

definition single_cell :: simulator where
  "single_cell = BICSimulator_init\<lparr>params := certified_params\<lparr>N := 1\<rparr>\<rparr>"

section \<open>Shapes and entries of the arrays\<close>

lemma length_zeros: "length (zeros n m) = n"
  by (simp add: zeros_def)

lemma nth_zeros: "i < n \<Longrightarrow> zeros n m ! i = replicate m 0"
  by (simp add: zeros_def)

lemma length_fill_diagonal: "length (fill_diagonal M v) = length M"
  by (simp add: fill_diagonal_def)

lemma nth_fill_diagonal: "i < length M \<Longrightarrow> fill_diagonal M v ! i = (M ! i)[i := v]"
  by (simp add: fill_diagonal_def)

lemma length_elementwise: "length (elementwise f M) = length M"
  by (simp add: elementwise_def)

lemma nth_elementwise: "i < length M \<Longrightarrow> elementwise f M ! i = map f (M ! i)"
  by (simp add: elementwise_def)

lemma length_outer_sub: "length (outer_sub xs ys) = length xs"
  by (simp add: outer_sub_def)

lemma nth_outer_sub: "i < length xs \<Longrightarrow> outer_sub xs ys ! i = map (\<lambda>y. xs ! i - y) ys"
  by (simp add: outer_sub_def)

lemma length_arange: "length (arange n) = n"
  by (simp add: arange_def)

lemma nth_arange: "i < n \<Longrightarrow> arange n ! i = int i"
  by (simp add: arange_def)

lemma length_separation: "length (separation s) = N (params s)"
  by (simp add: separation_def Let_def length_fill_diagonal length_elementwise
      length_outer_sub length_arange)

lemma length_separation_row:
  assumes "i < N (params s)"
  shows "length (separation s ! i) = N (params s)"
  using assms
  by (simp add: separation_def Let_def length_fill_diagonal length_elementwise
      length_outer_sub length_arange nth_fill_diagonal nth_elementwise nth_outer_sub)

lemma separation_entry:
  assumes "i < N (params s)" and "j < N (params s)"
  shows "separation s ! i ! j =
           (if i = j then a (params s) * 0.114
            else a (params s) * of_int \<bar>int i - int j\<bar>)"
  using assms
  by (simp add: separation_def Let_def length_fill_diagonal length_elementwise
      length_outer_sub length_arange nth_fill_diagonal nth_elementwise nth_outer_sub
      nth_arange)


lemma coupling_entry:
  assumes "i < N (params s)" and "j < N (params s)"
  shows "coupling s ! i ! j =
           radius (params s) ^ 3 / ((separation s ! i ! j) ^ 3 + (0.114 * a (params s)) ^ 3)"
  using assms
  by (simp add: coupling_def coupling_denominator_def nth_elementwise length_elementwise
      length_separation length_separation_row)

lemma phase_entry:
  assumes "i < N (params s)" and "j < N (params s)"
  shows "phase s ! i ! j =
           exp (- \<i> * 2 * of_real pi * of_real (separation s ! i ! j)
                  / of_real (lambda_0 (params s)))"
  using assms
  by (simp add: phase_def nth_elementwise length_separation length_separation_row)

lemma length_build_hamiltonian: "length (build_hamiltonian s omega) = N (params s)"
  by (simp add: build_hamiltonian_def Let_def elementwise2_def length_fill_diagonal
      length_zeros length_elementwise coupling_def coupling_denominator_def phase_def
      length_separation)

lemma length_build_hamiltonian_row:
  assumes "i < N (params s)"
  shows "length (build_hamiltonian s omega ! i) = N (params s)"
  using assms
  by (simp add: build_hamiltonian_def Let_def elementwise2_def length_fill_diagonal
      nth_fill_diagonal length_zeros nth_zeros length_elementwise nth_elementwise
      coupling_def coupling_denominator_def phase_def length_separation
      length_separation_row)

lemma build_hamiltonian_entry:
  assumes "i < N (params s)" and "j < N (params s)"
  shows "build_hamiltonian s omega ! i ! j =
           (if i = j then of_real ((omega / omega_0 s) ^ 2) * epsilon (params s) + 0.66 else 0)
           + of_real (0.62 * (coupling s ! i ! j)) * (phase s ! i ! j)"
proof -
  have cl: "length (coupling s) = N (params s)" "length (phase s) = N (params s)"
    by (simp_all add: coupling_def coupling_denominator_def phase_def length_elementwise
        length_separation)
  have rl: "length (coupling s ! i) = N (params s)" "length (phase s ! i) = N (params s)"
    using assms(1)
    by (simp_all add: coupling_def coupling_denominator_def phase_def length_elementwise
        nth_elementwise length_separation length_separation_row)
  show ?thesis
    using assms cl rl
    by (simp add: build_hamiltonian_def Let_def elementwise2_def length_fill_diagonal
        nth_fill_diagonal length_zeros nth_zeros length_elementwise nth_elementwise)
qed

lemma separation_sym:
  assumes "i < N (params s)" and "j < N (params s)"
  shows "separation s ! i ! j = separation s ! j ! i"
  using assms by (auto simp add: separation_entry abs_minus_commute)

lemma single_entry_matrix:
  assumes "length M = 1" and "length (M ! 0) = 1"
  shows "M = [[M ! 0 ! 0]]"
proof -
  from assms(1) obtain r where M: "M = [r]"
    by (cases M) auto
  with assms(2) obtain x where "r = [x]"
    by (cases r) auto
  with M show ?thesis by simp
qed

lemma single_cell_hamiltonian:
  assumes "N (params s) = 1"
  shows "build_hamiltonian s omega = [[build_hamiltonian s omega ! 0 ! 0]]"
  using assms
  by (intro single_entry_matrix)
    (simp_all add: length_build_hamiltonian length_build_hamiltonian_row)

section \<open>The scanner: arrays and loop\<close>

lemma map2_map_map: "map2 f (map g xs) (map h xs) = map (\<lambda>x. f (g x) (h x)) xs"
  by (induction xs) simp_all

lemma masked_map_map: "masked (map f xs) (map P xs) = map f (filter P xs)"
  by (induction xs) (simp_all add: masked_def)

lemma valid_pointwise:
  "valid s evals =
     map (\<lambda>z. 1 / 10 ^ 5 < - 2 * Im z * omega_0 s
             \<and> 193.0 < Re z * omega_0 s / (2 * pi * 10 ^ 12)
             \<and> Re z * omega_0 s / (2 * pi * 10 ^ 12) < 194.0
             \<and> 1.5 * 10 ^ 5 < Re z * omega_0 s / (- 2 * Im z * omega_0 s)) evals"
  by (simp add: valid_def Q_factor_def freq_THz_def omega_n_def Gamma_n_def map2_map_map
      o_def conj_assoc)

lemma freq_THz_pointwise:
  "freq_THz s evals = map (\<lambda>z. Re z * omega_0 s / (2 * pi * 10 ^ 12)) evals"
  by (simp add: freq_THz_def omega_n_def o_def)

lemma Q_factor_pointwise:
  "Q_factor s evals = map (\<lambda>z. Re z * omega_0 s / (- 2 * Im z * omega_0 s)) evals"
  by (simp add: Q_factor_def omega_n_def Gamma_n_def map2_map_map)

lemma sample_records_pointwise:
  "sample_records s evals =
     map (\<lambda>z. (Re z * omega_0 s / (2 * pi * 10 ^ 12), Re z * omega_0 s / (- 2 * Im z * omega_0 s)))
       (filter (\<lambda>z. 1 / 10 ^ 5 < - 2 * Im z * omega_0 s
             \<and> 193.0 < Re z * omega_0 s / (2 * pi * 10 ^ 12)
             \<and> Re z * omega_0 s / (2 * pi * 10 ^ 12) < 194.0
             \<and> 1.5 * 10 ^ 5 < Re z * omega_0 s / (- 2 * Im z * omega_0 s)) evals)"
  unfolding sample_records_def valid_pointwise freq_THz_pointwise Q_factor_pointwise
    masked_map_map
  by (simp add: zip_map_map zip_same_conv_map o_def)

lemma sweep_all_ok:
  assumes "\<forall>w\<in>set ws. ev (build_hamiltonian s w) = Inr (f w)"
  shows "sweep ev s ws acc = Inr (acc @ concat (map (\<lambda>w. sample_records s (f w)) ws))"
  using assms by (induction ws arbitrary: acc) simp_all

lemma sweep_error:
  assumes "\<forall>w\<in>set ws. ev (build_hamiltonian s w) = Inr (f w)"
    and "ev (build_hamiltonian s w') = Inl e"
  shows "sweep ev s (ws @ w' # rest) acc = Inl e"
  using assms by (induction ws arbitrary: acc) simp_all




lemma map_filter_by_index:
  "map g (filter P xs) = map (\<lambda>i. g (xs ! i)) (filter (\<lambda>i. P (xs ! i)) [0..<length xs])"
proof -
  have "map g (filter P (map (\<lambda>i. xs ! i) [0..<length xs]))
        = map (\<lambda>i. g (xs ! i)) (filter (\<lambda>i. P (xs ! i)) [0..<length xs])"
    by (simp add: filter_map o_def)
  then show ?thesis by (simp add: map_nth)
qed

lemma sample_records_by_index:
  "sample_records s evals =
     map (\<lambda>i. (freq_THz s evals ! i, Q_factor s evals ! i))
       (filter (\<lambda>i. 1 / 10 ^ 5 < Gamma_n s evals ! i
                  \<and> 193.0 < freq_THz s evals ! i \<and> freq_THz s evals ! i < 194.0
                  \<and> 1.5 * 10 ^ 5 < Q_factor s evals ! i) [0..<length evals])"
proof -
  have "sample_records s evals
     = map (\<lambda>i. (Re (evals ! i) * omega_0 s / (2 * pi * 10 ^ 12),
                 Re (evals ! i) * omega_0 s / (- 2 * Im (evals ! i) * omega_0 s)))
       (filter (\<lambda>i. 1 / 10 ^ 5 < - 2 * Im (evals ! i) * omega_0 s
             \<and> 193.0 < Re (evals ! i) * omega_0 s / (2 * pi * 10 ^ 12)
             \<and> Re (evals ! i) * omega_0 s / (2 * pi * 10 ^ 12) < 194.0
             \<and> 1.5 * 10 ^ 5 < Re (evals ! i) * omega_0 s / (- 2 * Im (evals ! i) * omega_0 s))
          [0..<length evals])"
    by (subst sample_records_pointwise, subst map_filter_by_index, rule refl)
  also have "\<dots> = map (\<lambda>i. (freq_THz s evals ! i, Q_factor s evals ! i))
       (filter (\<lambda>i. 1 / 10 ^ 5 < Gamma_n s evals ! i
                  \<and> 193.0 < freq_THz s evals ! i \<and> freq_THz s evals ! i < 194.0
                  \<and> 1.5 * 10 ^ 5 < Q_factor s evals ! i) [0..<length evals])"
    by (intro map_cong filter_cong refl)
       (simp_all add: freq_THz_pointwise Q_factor_pointwise Gamma_n_def)
  finally show ?thesis .
qed

lemma argmax_scan_first_max:
  assumes "ys = pre @ xs" and "i = length pre" and "best < i" and "v = ys ! best"
    and "\<forall>j<i. ys ! j \<le> v" and "\<forall>j<best. ys ! j < v"
  shows "argmax_scan xs i best v < length ys
       \<and> (\<forall>j<length ys. ys ! j \<le> ys ! argmax_scan xs i best v)
       \<and> (\<forall>j<argmax_scan xs i best v. ys ! j < ys ! argmax_scan xs i best v)"
  using assms
proof (induction xs arbitrary: pre i best v)
  case Nil
  then show ?case by simp
next
  case (Cons x xs)
  have ys: "ys = (pre @ [x]) @ xs" and len: "Suc i = length (pre @ [x])"
    using Cons.prems by simp_all
  have yi: "ys ! i = x"
    using Cons.prems by simp
  show ?case
  proof (cases "v < x")
    case True
    have le: "\<forall>j<Suc i. ys ! j \<le> x"
      using Cons.prems(5) True yi by (auto simp add: less_Suc_eq intro: order.trans less_imp_le)
    have lt: "\<forall>j<i. ys ! j < x"
      using Cons.prems(5) True by (auto intro: le_less_trans)
    from Cons.IH [OF ys len _ _ le lt] yi True show ?thesis by simp
  next
    case False
    have le: "\<forall>j<Suc i. ys ! j \<le> v"
      using Cons.prems(5) False yi by (auto simp add: less_Suc_eq)
    from Cons.IH [OF ys len _ Cons.prems(4) le Cons.prems(6)] Cons.prems(3) False
    show ?thesis by simp
  qed
qed

lemma argmax_first_max:
  assumes "ys \<noteq> []"
  shows "\<exists>k. argmax ys = Inr k \<and> k < length ys
           \<and> (\<forall>j<length ys. ys ! j \<le> ys ! k) \<and> (\<forall>j<k. ys ! j < ys ! k)"
proof -
  from assms obtain y rest where ys: "ys = y # rest"
    by (cases ys) auto
  have "argmax_scan rest 1 0 y < length ys
       \<and> (\<forall>j<length ys. ys ! j \<le> ys ! argmax_scan rest 1 0 y)
       \<and> (\<forall>j<argmax_scan rest 1 0 y. ys ! j < ys ! argmax_scan rest 1 0 y)"
    by (rule argmax_scan_first_max [where pre = "[y]"]) (simp_all add: ys)
  moreover have "argmax ys = Inr (argmax_scan rest 1 0 y)"
    by (simp add: argmax_def ys)
  ultimately show ?thesis by blast
qed

lemma valid_by_index:
  assumes "i < length evals"
  shows "valid s evals ! i =
           (1 / 10 ^ 5 < Gamma_n s evals ! i
            \<and> 193.0 < freq_THz s evals ! i \<and> freq_THz s evals ! i < 194.0
            \<and> 1.5 * 10 ^ 5 < Q_factor s evals ! i)"
  using assms
  by (simp add: valid_pointwise freq_THz_pointwise Q_factor_pointwise Gamma_n_def)




lemma synthetic_records:
  assumes "omega_0 s / (2 * pi * 10 ^ 12) = F" and "193 < F" and "F < 194" and "5 < omega_0 s"
  shows "sample_records s [Complex 1 0, Complex 1 (- 1 / 10 ^ 6), Complex 1 (1 / 10 ^ 6)]
           = [(F, 500000)]"
proof -
  have q: "omega_0 s / (- 2 * (- 1 / 10 ^ 6) * omega_0 s) = 500000"
    using assms(4) by simp
  have g: "1 / 10 ^ 5 < - 2 * (- 1 / 10 ^ 6) * omega_0 s"
    using assms(4) by simp
  have n: "\<not> 1 / 10 ^ 5 < - 2 * (1 / 10 ^ 6) * omega_0 s"
    using assms(4) by simp
  show ?thesis
    unfolding sample_records_pointwise
    using assms(1,2,3) q g n by simp
qed

lemma certified_omega_0:
  "omega_0 BICSimulator_init / (2 * pi * 10 ^ 12) = 299792458 / 1550000"
  "5 < omega_0 BICSimulator_init"
proof -
  have W: "omega_0 BICSimulator_init = 2 * pi * c / (1550 / 10 ^ 9)"
    by (simp add: BICSimulator_init_def certified_params_def)
  show "omega_0 BICSimulator_init / (2 * pi * 10 ^ 12) = 299792458 / 1550000"
    by (simp add: W c_def)
  have "5 < 2 * 2 * c / (1550 / 10 ^ 9)"
    by (simp add: c_def)
  also have "\<dots> \<le> 2 * pi * c / (1550 / 10 ^ 9)"
    using pi_ge_two by (intro divide_right_mono mult_right_mono mult_left_mono) (simp_all add: c_def)
  finally show "5 < omega_0 BICSimulator_init"
    by (simp add: W)
qed

section \<open>The certified simulator with a single unit cell\<close>

lemma diagonal_value:
  assumes "i < N (params s)"
  shows "build_hamiltonian s omega ! i ! i =
           of_real ((omega / omega_0 s) ^ 2) * epsilon (params s) + 0.66
           + of_real (0.62 * (radius (params s) ^ 3
                      / ((a (params s) * 0.114) ^ 3 + (0.114 * a (params s)) ^ 3)))
             * exp (- \<i> * 2 * of_real pi * of_real (a (params s) * 0.114)
                    / of_real (lambda_0 (params s)))"
  using assms
  by (simp add: build_hamiltonian_entry coupling_entry phase_entry separation_entry)

lemma single_cell_params:
  "params single_cell = certified_params\<lparr>N := 1\<rparr>"
  "omega_0 single_cell = 2 * pi * c / (1550 / 10 ^ 9)"
  "theoretical single_cell = reference_values"
  by (simp_all add: single_cell_def BICSimulator_init_def certified_params_def)

lemma single_cell_self_term:
  "build_hamiltonian single_cell w ! 0 ! 0 =
     of_real ((w / omega_0 single_cell) ^ 2) * Complex 12.1 (6.0 / 10 ^ 7) + 0.66
     + of_real (0.62 * ((202 / 10 ^ 9) ^ 3
                  / ((600 / 10 ^ 9 * 0.114) ^ 3 + (0.114 * (600 / 10 ^ 9)) ^ 3)))
       * exp (- \<i> * 2 * of_real pi * of_real (600 / 10 ^ 9 * 0.114) / of_real (1550 / 10 ^ 9))"
  using diagonal_value [of 0 single_cell w]
  by (simp add: single_cell_params(1) certified_params_def)

lemma self_phase_cos: "1 / 2 \<le> cos (2 * pi * (600 / 10 ^ 9 * 0.114) / (1550 / 10 ^ 9))"
proof -
  have "cos (pi / 3) \<le> cos (2 * pi * (600 / 10 ^ 9 * 0.114) / (1550 / 10 ^ 9))"
  proof (rule cos_monotone_0_pi_le)
    show "0 \<le> 2 * pi * (600 / 10 ^ 9 * 0.114) / (1550 / 10 ^ 9)"
      by simp
    have "2 * (600 / 10 ^ 9 * 0.114) / (1550 / 10 ^ 9) \<le> (1 / 3 :: real)"
      by simp
    then have "pi * (2 * (600 / 10 ^ 9 * 0.114) / (1550 / 10 ^ 9)) \<le> pi * (1 / 3)"
      by (intro mult_left_mono) simp_all
    then show "2 * pi * (600 / 10 ^ 9 * 0.114) / (1550 / 10 ^ 9) \<le> pi / 3"
      by (simp add: field_simps)
    show "pi / 3 \<le> pi" by simp
  qed
  then show ?thesis by (simp add: cos_60)
qed

lemma single_cell_Re:
  "4 \<le> Re (build_hamiltonian single_cell w ! 0 ! 0)"
proof -
  define t :: real where "t = 2 * pi * (600 / 10 ^ 9 * 0.114) / (1550 / 10 ^ 9)"
  define K :: real where "K = 0.62 * ((202 / 10 ^ 9) ^ 3
                  / ((600 / 10 ^ 9 * 0.114) ^ 3 + (0.114 * (600 / 10 ^ 9)) ^ 3))"
  define A :: real where "A = (w / omega_0 single_cell) ^ 2 * 12.1"
  have e: "exp (- \<i> * 2 * of_real pi * of_real (600 / 10 ^ 9 * 0.114) / of_real (1550 / 10 ^ 9))
           = cis (- t)"
    by (simp add: cis_conv_exp field_simps t_def)
  have K: "7 \<le> K" by (simp add: K_def power3_eq_cube)
  have c: "1 / 2 \<le> cos t"
    using self_phase_cos by (simp add: t_def)
  have "Re (build_hamiltonian single_cell w ! 0 ! 0) = A + 0.66 + K * cos t"
    unfolding single_cell_self_term e by (simp add: A_def K_def)
  moreover have "0 \<le> A"
    by (simp add: A_def)
  moreover have "7 * (1 / 2) \<le> K * cos t"
    using K c by (intro mult_mono) simp_all
  ultimately show ?thesis by simp
qed

lemma single_cell_freq:
  "194.0 \<le> Re (build_hamiltonian single_cell w ! 0 ! 0) * omega_0 single_cell / (2 * pi * 10 ^ 12)"
proof -
  have "omega_0 single_cell / (2 * pi * 10 ^ 12) = 299792458 / (1550 / 10 ^ 9) / 10 ^ 12"
    by (simp add: single_cell_params c_def)
  then have eq: "Re (build_hamiltonian single_cell w ! 0 ! 0) * omega_0 single_cell / (2 * pi * 10 ^ 12)
      = Re (build_hamiltonian single_cell w ! 0 ! 0) * (299792458 / (1550 / 10 ^ 9) / 10 ^ 12)"
    by (metis times_divide_eq_right)
  have "4 * (299792458 / (1550 / 10 ^ 9) / 10 ^ 12)
        \<le> Re (build_hamiltonian single_cell w ! 0 ! 0) * (299792458 / (1550 / 10 ^ 9) / 10 ^ 12)"
    using single_cell_Re [of w] by (intro mult_right_mono) simp_all
  moreover have "(194.0::real) \<le> 4 * (299792458 / (1550 / 10 ^ 9) / 10 ^ 12)"
    by simp
  ultimately show ?thesis
    unfolding eq by linarith
qed

lemma eigvals_1x1_single: "eigvals_1x1 [[x]] = Inr [x]"
  by (simp add: eigvals_1x1_def)

lemma single_cell_solver:
  "eigvals_1x1 (build_hamiltonian single_cell w) = Inr [build_hamiltonian single_cell w ! 0 ! 0]"
proof -
  have "build_hamiltonian single_cell w = [[build_hamiltonian single_cell w ! 0 ! 0]]"
    by (rule single_cell_hamiltonian) (simp add: single_cell_params)
  then have "eigvals_1x1 (build_hamiltonian single_cell w)
             = eigvals_1x1 [[build_hamiltonian single_cell w ! 0 ! 0]]"
    by (rule arg_cong)
  also have "\<dots> = Inr [build_hamiltonian single_cell w ! 0 ! 0]"
    by (rule eigvals_1x1_single)
  finally show ?thesis .
qed

lemma single_cell_no_record:
  "sample_records single_cell [build_hamiltonian single_cell w ! 0 ! 0] = []"
  using single_cell_freq [of w]
  by (simp add: sample_records_pointwise)

lemma single_cell_sweep: "sweep eigvals_1x1 single_cell ws [] = Inr []"
proof -
  have "\<forall>w\<in>set ws. eigvals_1x1 (build_hamiltonian single_cell w)
            = Inr [build_hamiltonian single_cell w ! 0 ! 0]"
    by (simp add: single_cell_solver)
  from sweep_all_ok [OF this, of "[]"] show ?thesis
    by (simp add: single_cell_no_record)
qed

section \<open>The Hamiltonian builder: entries\<close>

text \<open>
  Claim C6. For every angular frequency \<open>omega\<close> and every two distinct cell indices
  \<open>i\<close> and \<open>j\<close> below \<open>N\<close>, the entry \<open>H[i][j]\<close> of the Hamiltonian is
  \<open>0.62 * radius^3 / (r^3 + (0.114 * a)^3) * exp (-i * 2 * pi * r / lambda_0)\<close> with
  \<open>r = a * |i - j|\<close>: nothing but the coupling term reaches an entry off the diagonal.
\<close>

theorem off_diagonal_entry:
  assumes "i < N (params s)" and "j < N (params s)" and "i \<noteq> j"
  shows "build_hamiltonian s omega ! i ! j =
           of_real (0.62 * (radius (params s) ^ 3
                      / ((a (params s) * of_int \<bar>int i - int j\<bar>) ^ 3
                         + (0.114 * a (params s)) ^ 3)))
           * exp (- \<i> * 2 * of_real pi * of_real (a (params s) * of_int \<bar>int i - int j\<bar>)
                    / of_real (lambda_0 (params s)))"
  using assms
  by (simp add: build_hamiltonian_entry coupling_entry phase_entry separation_entry)

theorem off_diagonal_entry_witness:
  "(0::nat) < N (params BICSimulator_init) \<and> (1::nat) < N (params BICSimulator_init)
   \<and> (0::nat) \<noteq> 1
   \<and> build_hamiltonian BICSimulator_init 1 ! 0 ! 1 =
       of_real (0.62 * ((202 / 10 ^ 9) ^ 3
                  / ((600 / 10 ^ 9 * 1) ^ 3 + (0.114 * (600 / 10 ^ 9)) ^ 3)))
       * exp (- \<i> * 2 * of_real pi * of_real (600 / 10 ^ 9 * 1) / of_real (1550 / 10 ^ 9))"
  using off_diagonal_entry [of 0 BICSimulator_init 1 1]
  by (simp add: BICSimulator_init_def certified_params_def)

text \<open>
  Claim C1 as stated fails: at the reference frequency the single entry of the
  Hamiltonian of the certified simulator with one unit cell is not
  \<open>(omega / omega_0)^2 * epsilon + 0.66\<close>, and neither is the eigenvalue that the solver
  returns for this 1-by-1 matrix.
\<close>

theorem diagonal_formula_counterexample:
  "build_hamiltonian single_cell (omega_0 single_cell) ! 0 ! 0
     \<noteq> of_real ((omega_0 single_cell / omega_0 single_cell) ^ 2) * epsilon (params single_cell)
        + 0.66
   \<and> eigvals_1x1 (build_hamiltonian single_cell (omega_0 single_cell))
     \<noteq> Inr [of_real ((omega_0 single_cell / omega_0 single_cell) ^ 2)
              * epsilon (params single_cell) + 0.66]"
proof -
  have "build_hamiltonian single_cell (omega_0 single_cell) ! 0 ! 0
     \<noteq> of_real ((omega_0 single_cell / omega_0 single_cell) ^ 2) * epsilon (params single_cell)
        + 0.66"
    unfolding single_cell_self_term
    by (simp add: single_cell_params(1) certified_params_def)
  then show ?thesis
    by (simp add: single_cell_solver)
qed

text \<open>
  Claim C1, amended. Line 36 adds \<open>0.62 * coupling * phase\<close> to the whole array, the
  diagonal included, where line 32 has set the separation to the self-distance
  \<open>a * 0.114\<close>. So every diagonal entry is \<open>(omega / omega_0)^2 * epsilon + 0.66\<close> plus
  the self-coupling term
  \<open>0.62 * radius^3 / ((a * 0.114)^3 + (0.114 * a)^3) * exp (-i * 2 * pi * (a * 0.114) / lambda_0)\<close>;
  with one unit cell the single eigenvalue of the 1-by-1 Hamiltonian is that entry.
\<close>

theorem diagonal_entry:
  assumes "i < N (params s)"
  shows "build_hamiltonian s omega ! i ! i =
           of_real ((omega / omega_0 s) ^ 2) * epsilon (params s) + 0.66
           + of_real (0.62 * (radius (params s) ^ 3
                      / ((a (params s) * 0.114) ^ 3 + (0.114 * a (params s)) ^ 3)))
             * exp (- \<i> * 2 * of_real pi * of_real (a (params s) * 0.114)
                    / of_real (lambda_0 (params s)))
       \<and> (N (params s) = 1 \<longrightarrow>
            eigvals_1x1 (build_hamiltonian s omega) = Inr [build_hamiltonian s omega ! i ! i])"
proof -
  have "eigvals_1x1 (build_hamiltonian s omega) = Inr [build_hamiltonian s omega ! i ! i]"
    if one: "N (params s) = 1"
  proof -
    have "i = 0" using assms one by simp
    moreover have "build_hamiltonian s omega = [[build_hamiltonian s omega ! 0 ! 0]]"
      using one by (rule single_cell_hamiltonian)
    then have "eigvals_1x1 (build_hamiltonian s omega)
             = eigvals_1x1 [[build_hamiltonian s omega ! 0 ! 0]]"
      by (rule arg_cong)
    ultimately show ?thesis
      by (simp add: eigvals_1x1_single)
  qed
  with diagonal_value [OF assms] show ?thesis
    by blast
qed

theorem diagonal_entry_witness:
  "(0::nat) < N (params single_cell) \<and> N (params single_cell) = 1
   \<and> eigvals_1x1 (build_hamiltonian single_cell 1)
     = Inr [of_real ((1 / omega_0 single_cell) ^ 2) * Complex 12.1 (6.0 / 10 ^ 7) + 0.66
           + of_real (0.62 * ((202 / 10 ^ 9) ^ 3
                  / ((600 / 10 ^ 9 * 0.114) ^ 3 + (0.114 * (600 / 10 ^ 9)) ^ 3)))
             * exp (- \<i> * 2 * of_real pi * of_real (600 / 10 ^ 9 * 0.114)
                    / of_real (1550 / 10 ^ 9))]"
  using diagonal_entry [of 0 single_cell 1]
  by (simp add: single_cell_params(1) certified_params_def)



text \<open>
  Claim C10. For every angular frequency the Hamiltonian is symmetric: \<open>H[i][j]\<close> and
  \<open>H[j][i]\<close> are the same complex number (no conjugation) for all indices below \<open>N\<close>,
  the separation being the same for \<open>(i, j)\<close> and \<open>(j, i)\<close>.
\<close>

theorem hamiltonian_symmetric:
  assumes "i < N (params s)" and "j < N (params s)"
  shows "build_hamiltonian s omega ! i ! j = build_hamiltonian s omega ! j ! i"
  using assms separation_sym [OF assms]
  by (auto simp add: build_hamiltonian_entry coupling_entry phase_entry)

theorem hamiltonian_symmetric_witness:
  "(2::nat) < N (params BICSimulator_init) \<and> (7::nat) < N (params BICSimulator_init)
   \<and> build_hamiltonian BICSimulator_init 1 ! 2 ! 7 = build_hamiltonian BICSimulator_init 1 ! 7 ! 2"
  using hamiltonian_symmetric [of 2 BICSimulator_init 7 1]
  by (simp add: BICSimulator_init_def certified_params_def)

section \<open>The resonance scanner: what is returned\<close>

text \<open>
  Claim C3 as stated fails: for the certified simulator with one unit cell no eigenvalue
  of any sample passes the filter (the loop ends with an empty list of results), and
  \<open>run_simulation\<close> returns \<open>None\<close>, which is not an empty collection of records.
\<close>

theorem run_simulation_empty_counterexample:
  "sweep eigvals_1x1 single_cell (omega_range single_cell) [] = Inr []
   \<and> run_simulation eigvals_1x1 single_cell = Inr None
   \<and> run_simulation eigvals_1x1 single_cell \<noteq> Inr (Some [])"
  by (simp add: run_simulation_def single_cell_sweep)

text \<open>
  Claim C3, amended. When the solver returns eigenvalues for every sample of the sweep,
  \<open>run_simulation\<close> returns the full list of accepted records, sample after sample in
  sweep order, if that list has at least one record, and \<open>None\<close> if it has none; it never
  returns an empty collection.
\<close>

theorem run_simulation_returns:
  assumes "\<forall>w\<in>set (omega_range s). ev (build_hamiltonian s w) = Inr (f w)"
  shows "run_simulation ev s =
           Inr (if concat (map (\<lambda>w. sample_records s (f w)) (omega_range s)) = [] then None
                else Some (concat (map (\<lambda>w. sample_records s (f w)) (omega_range s))))
       \<and> run_simulation ev s \<noteq> Inr (Some [])"
  using sweep_all_ok [OF assms, of "[]"]
  by (simp add: run_simulation_def)

theorem run_simulation_returns_witness:
  "concat (map (\<lambda>w. sample_records single_cell [build_hamiltonian single_cell w ! 0 ! 0])
        (omega_range single_cell)) = []
   \<and> run_simulation eigvals_1x1 single_cell = Inr None"
  using run_simulation_returns [of single_cell eigvals_1x1
      "\<lambda>w. [build_hamiltonian single_cell w ! 0 ! 0]"]
  by (simp add: single_cell_solver single_cell_no_record)

text \<open>
  Claim C4. In every sample, the pair \<open>(freq_THz[i], Q[i])\<close> of eigenvalue \<open>i\<close> is appended
  to the results exactly when \<open>Gamma_n[i] > 1e-5\<close>, \<open>193.0 < freq_THz[i] < 194.0\<close> and
  \<open>Q[i] > 1.5e5\<close> all hold, the accepted pairs keeping the order of the eigenvalues. An
  eigenvalue whose decay rate is zero or negative is not valid, and the filter raises
  nothing: whenever the solver returns eigenvalues for every sample, the loop ends
  with the results of all samples appended in order.
\<close>

theorem acceptance_filter:
  shows "sample_records s evals =
           map (\<lambda>i. (freq_THz s evals ! i, Q_factor s evals ! i))
             (filter (\<lambda>i. 1 / 10 ^ 5 < Gamma_n s evals ! i
                        \<and> 193.0 < freq_THz s evals ! i \<and> freq_THz s evals ! i < 194.0
                        \<and> 1.5 * 10 ^ 5 < Q_factor s evals ! i) [0..<length evals])
       \<and> (\<forall>i<length evals. Gamma_n s evals ! i \<le> 0 \<longrightarrow> \<not> valid s evals ! i)
       \<and> ((\<forall>w\<in>set ws. ev (build_hamiltonian s w) = Inr (f w)) \<longrightarrow>
            sweep ev s ws results
              = Inr (results @ concat (map (\<lambda>w. sample_records s (f w)) ws)))"
proof (intro conjI allI impI)
  show "sample_records s evals =
           map (\<lambda>i. (freq_THz s evals ! i, Q_factor s evals ! i))
             (filter (\<lambda>i. 1 / 10 ^ 5 < Gamma_n s evals ! i
                        \<and> 193.0 < freq_THz s evals ! i \<and> freq_THz s evals ! i < 194.0
                        \<and> 1.5 * 10 ^ 5 < Q_factor s evals ! i) [0..<length evals])"
    by (rule sample_records_by_index)
next
  fix i assume "i < length evals" and "Gamma_n s evals ! i \<le> 0"
  then show "\<not> valid s evals ! i"
    by (simp add: valid_by_index)
next
  assume "\<forall>w\<in>set ws. ev (build_hamiltonian s w) = Inr (f w)"
  then show "sweep ev s ws results
              = Inr (results @ concat (map (\<lambda>w. sample_records s (f w)) ws))"
    by (rule sweep_all_ok)
qed

theorem acceptance_filter_witness:
  "sample_records BICSimulator_init [Complex 1 0, Complex 1 (- 1 / 10 ^ 6), Complex 1 (1 / 10 ^ 6)]
     = [(299792458 / 1550000, 500000)]
   \<and> Gamma_n BICSimulator_init [Complex 1 0, Complex 1 (- 1 / 10 ^ 6), Complex 1 (1 / 10 ^ 6)] ! 0 \<le> 0
   \<and> \<not> valid BICSimulator_init [Complex 1 0, Complex 1 (- 1 / 10 ^ 6), Complex 1 (1 / 10 ^ 6)] ! 0
   \<and> eigvals_1x1 (build_hamiltonian single_cell (omega_0 single_cell))
       = Inr [build_hamiltonian single_cell (omega_0 single_cell) ! 0 ! 0]
   \<and> sweep eigvals_1x1 single_cell [omega_0 single_cell] [] = Inr []"
proof -
  have r: "sample_records BICSimulator_init
             [Complex 1 0, Complex 1 (- 1 / 10 ^ 6), Complex 1 (1 / 10 ^ 6)]
           = [(299792458 / 1550000, 500000)]"
    by (rule synthetic_records [OF certified_omega_0(1) _ _ certified_omega_0(2)]) simp_all
  have g: "Gamma_n BICSimulator_init
             [Complex 1 0, Complex 1 (- 1 / 10 ^ 6), Complex 1 (1 / 10 ^ 6)] ! 0 \<le> 0"
    by (simp add: Gamma_n_def)
  show ?thesis
    using acceptance_filter [of BICSimulator_init
        "[Complex 1 0, Complex 1 (- 1 / 10 ^ 6), Complex 1 (1 / 10 ^ 6)]"
        "[omega_0 single_cell]" eigvals_1x1 "\<lambda>w. [build_hamiltonian single_cell w ! 0 ! 0]" "[]"]
      acceptance_filter [of single_cell "[]"
        "[omega_0 single_cell]" eigvals_1x1 "\<lambda>w. [build_hamiltonian single_cell w ! 0 ! 0]" "[]"]
      r g
    by (simp add: single_cell_solver single_cell_no_record)
qed



section \<open>The reporter\<close>

text \<open>
  Claim C7. For a non-empty collection of records, \<open>visualize\<close> reports the record at the
  first index whose Q is maximal (no record has a larger Q, every earlier record has a
  strictly smaller one): its frequency, its Q and the linewidth
  \<open>frequency / Q * 1e3\<close>.
\<close>

theorem best_record:
  assumes "rs \<noteq> []"
  shows "\<exists>k<length rs.
           visualize s (Some rs)
             = Inr (NumericalResults (fst (rs ! k)) (snd (rs ! k))
                     (fst (rs ! k) / snd (rs ! k) * 10 ^ 3))
           \<and> (\<forall>j<length rs. snd (rs ! j) \<le> snd (rs ! k))
           \<and> (\<forall>j<k. snd (rs ! j) < snd (rs ! k))"
proof -
  have ne: "map snd rs \<noteq> []" using assms by simp
  from argmax_first_max [OF ne] obtain k
    where am: "argmax (map snd rs) = Inr k"
      and k: "k < length rs"
      and le': "\<forall>j<length (map snd rs). map snd rs ! j \<le> map snd rs ! k"
      and lt': "\<forall>j<k. map snd rs ! j < map snd rs ! k"
    by auto
  have le: "\<forall>j<length rs. snd (rs ! j) \<le> snd (rs ! k)"
  proof (intro allI impI)
    fix j assume j: "j < length rs"
    with le' have "map snd rs ! j \<le> map snd rs ! k" by simp
    with j k show "snd (rs ! j) \<le> snd (rs ! k)" by simp
  qed
  have lt: "\<forall>j<k. snd (rs ! j) < snd (rs ! k)"
  proof (intro allI impI)
    fix j assume j: "j < k"
    with lt' have "map snd rs ! j < map snd rs ! k" by simp
    moreover have "j < length rs" using j k by simp
    ultimately show "snd (rs ! j) < snd (rs ! k)" using k by simp
  qed
  have "visualize s (Some rs)
      = Inr (NumericalResults (fst (rs ! k)) (snd (rs ! k))
               (fst (rs ! k) / snd (rs ! k) * 10 ^ 3))"
    by (simp add: visualize_def am)
  with k le lt show ?thesis by blast
qed

theorem best_record_witness:
  "[(193.5, 2 * 10 ^ 5), (193.6, 3 * 10 ^ 5), (193.7, 3 * 10 ^ 5 :: real)] \<noteq> []
   \<and> visualize BICSimulator_init (Some [(193.5, 2 * 10 ^ 5), (193.6, 3 * 10 ^ 5), (193.7, 3 * 10 ^ 5)])
     = Inr (NumericalResults 193.6 (3 * 10 ^ 5) (193.6 / (3 * 10 ^ 5) * 10 ^ 3))"
  using best_record [of "[(193.5, 2 * 10 ^ 5), (193.6, 3 * 10 ^ 5), (193.7, 3 * 10 ^ 5)]"
      BICSimulator_init]
  by (simp add: visualize_def argmax_def)

text \<open>
  Claim C8. When the scan ends without an accepted record, \<open>run_simulation\<close> returns
  \<open>None\<close> and the reporter prints the block of the theoretical reference instead of any
  computed result; with the reference dictionary as \<open>__init__\<close> sets it, the values are
  exactly 193.4145 THz, Q = 3.2e5 and 0.60 MHz.
\<close>

theorem empty_scan_reports_reference:
  assumes "sweep ev s (omega_range s) [] = Inr []"
    and "theoretical s = theoretical BICSimulator_init"
  shows "run_simulation ev s = Inr None
       \<and> visualize s None = Inr (TheoreticalReference 193.4145 (3.2 * 10 ^ 5) 0.60)
       \<and> run ev s = Inr (TheoreticalReference 193.4145 (3.2 * 10 ^ 5) 0.60, export_gds s)"
proof -
  have r: "run_simulation ev s = Inr None"
    using assms(1) by (simp add: run_simulation_def)
  have v: "visualize s None = Inr (TheoreticalReference 193.4145 (3.2 * 10 ^ 5) 0.60)"
    using assms(2) by (simp add: visualize_def BICSimulator_init_def reference_values_def)
  show ?thesis
    using r v by (simp add: run_def)
qed

theorem empty_scan_reports_reference_witness:
  "sweep eigvals_1x1 single_cell (omega_range single_cell) [] = Inr []
   \<and> theoretical single_cell = theoretical BICSimulator_init
   \<and> run eigvals_1x1 single_cell
       = Inr (TheoreticalReference 193.4145 (3.2 * 10 ^ 5) 0.60, export_gds single_cell)"
  using empty_scan_reports_reference [of eigvals_1x1 single_cell]
    single_cell_sweep [of "omega_range single_cell"]
  by (simp add: single_cell_def)

section \<open>The layout exporter\<close>



end
